theory Spec2Isabelle
  imports Main "HOL-Library.Word"
begin

section \<open>Go values, panics and errors\<close>

text \<open>
  The provider handles dynamically typed values (\<^verbatim>\<open>interface{}\<close>): what the host hands
  out through \<^verbatim>\<open>d.Get\<close>/\<^verbatim>\<open>d.GetOk\<close> and what the decoded JSON response map holds.
  \<open>VNumber\<close> is a \<^verbatim>\<open>json.Number\<close> (the literal's text), \<open>VInt\<close> a Go \<^verbatim>\<open>int\<close>,
  \<open>VInt64\<close> an \<^verbatim>\<open>int64\<close>, \<open>VStrings\<close> a \<^verbatim>\<open>[]string\<close>, \<open>VList\<close> a
  \<^verbatim>\<open>[]interface{}\<close> and \<open>VMap\<close> a \<^verbatim>\<open>map[string]interface{}\<close>, kept as an
  association list read with \<open>map_of\<close>.
\<close>

datatype val =
    VNil
  | VString string
  | VNumber string
  | VInt int
  | VInt64 int
  | VBool bool
  | VStrings "string list"
  | VList "val list"
  | VMap "(string \<times> val) list"

text \<open>
  A single-value type assertion \<^verbatim>\<open>x.(T)\<close> on a value of another dynamic type, and a
  field read through a nil pointer, end the call with a run-time panic.
\<close>

datatype panic = TypeAssertion | NilDereference

text \<open>
  An error of the remote client: either a structured error of the service, carrying the
  HTTP status of its response, or any other error (transport, cancellation).
  \<^verbatim>\<open>api.AsServerError\<close> returns the structured error, and nil for any other error.
\<close>

datatype api_error = ServerError nat string | OtherError string

fun AsServerError :: "api_error \<Rightarrow> (nat \<times> string) option" where
  "AsServerError (ServerError status msg) = Some (status, msg)"
| "AsServerError (OtherError msg) = None"

definition StatusNotFound :: nat where
  "StatusNotFound = 404"

text \<open>
  The error values and diagnostics the four callbacks produce. \<open>HostError\<close> is an error
  returned by \<^verbatim>\<open>d.Set\<close>; \<open>errorInvalidAuthMethodType\<close> is the package variable of
  that name, declared outside the files under src/.
\<close>

datatype error =
    errorInvalidAuthMethodType
  | HostError string
  | NoTypeProvided
  | NoScopeIdProvided
  | ErrorCreating api_error
  | NilAfterCreate
  | ErrorReading api_error
  | NilAfterRead
  | ErrorUpdating api_error
  | ErrorDeleting api_error

subsection \<open>Type assertions and map indexing\<close>

definition index :: "(string \<times> val) list \<Rightarrow> string \<Rightarrow> val" where
  "index m k = (case map_of m k of None \<Rightarrow> VNil | Some v \<Rightarrow> v)"

fun as_string :: "val \<Rightarrow> panic + string" where
  "as_string (VString s) = Inr s"
| "as_string _ = Inl TypeAssertion"

fun as_Number :: "val \<Rightarrow> panic + string" where
  "as_Number (VNumber n) = Inr n"
| "as_Number _ = Inl TypeAssertion"

fun as_int :: "val \<Rightarrow> panic + int" where
  "as_int (VInt i) = Inr i"
| "as_int _ = Inl TypeAssertion"

fun as_bool :: "val \<Rightarrow> panic + bool" where
  "as_bool (VBool b) = Inr b"
| "as_bool _ = Inl TypeAssertion"

fun as_strings :: "val \<Rightarrow> panic + string list" where
  "as_strings (VStrings ss) = Inr ss"
| "as_strings _ = Inl TypeAssertion"

fun as_list :: "val \<Rightarrow> panic + val list" where
  "as_list (VList vs) = Inr vs"
| "as_list _ = Inl TypeAssertion"

fun as_map :: "val \<Rightarrow> panic + (string \<times> val) list" where
  "as_map (VMap m) = Inr m"
| "as_map _ = Inl TypeAssertion"

text \<open>Sequencing: a panic ends the computation, a value is passed on.\<close>

definition asserting :: "panic + 'a \<Rightarrow> ('a \<Rightarrow> panic + 'b) \<Rightarrow> panic + 'b" where
  "asserting m f = (case m of Inl p \<Rightarrow> Inl p | Inr x \<Rightarrow> f x)"

text \<open>\<^verbatim>\<open>uint32(v.(int))\<close>: the assertion, then the conversion, which wraps modulo \<open>2^32\<close>.\<close>

definition as_uint32 :: "val \<Rightarrow> panic + 32 word" where
  "as_uint32 v = asserting (as_int v) (\<lambda>i. Inr (word_of_int i))"

subsection \<open>\<^verbatim>\<open>json.Number.Int64\<close>\<close>

text \<open>
  \<^verbatim>\<open>Int64\<close> is \<^verbatim>\<open>strconv.ParseInt(s, 10, 64)\<close>; the source discards its error, so only
  the returned number matters: 0 on a syntax error, the nearest bound on a range error.
\<close>

fun ParseUint_from :: "nat \<Rightarrow> string \<Rightarrow> nat option" where
  "ParseUint_from n [] = Some n"
| "ParseUint_from n (c # cs) =
     (if 48 \<le> (of_char c :: nat) \<and> (of_char c :: nat) \<le> 57
      then ParseUint_from (n * 10 + (of_char c - 48)) cs
      else None)"

definition ParseUint :: "string \<Rightarrow> nat option" where
  "ParseUint s = (if s = [] then None else ParseUint_from 0 s)"

definition Int64 :: "string \<Rightarrow> int" where
  "Int64 s =
     (let neg = (s \<noteq> [] \<and> hd s = CHR ''-'');
          s1 = (if s \<noteq> [] \<and> (hd s = CHR ''+'' \<or> hd s = CHR ''-'') then tl s else s)
      in case ParseUint s1 of
           None \<Rightarrow> 0
         | Some un \<Rightarrow>
             if \<not> neg \<and> un \<ge> 2 ^ 63 then 2 ^ 63 - 1
             else if neg \<and> un > 2 ^ 63 then - (2 ^ 63)
             else if neg then - int un else int un)"

subsection \<open>\<^verbatim>\<open>strings.TrimSpace\<close>\<close>

text \<open>
  Strings are byte strings. On ASCII, Unicode white space is tab, line feed, vertical tab,
  form feed, carriage return and space; the white space of Unicode beyond ASCII (U+0085,
  U+00A0 and others, several bytes each in UTF-8) is not modelled.
\<close>

definition isSpace :: "char \<Rightarrow> bool" where
  "isSpace c = ((of_char c :: nat) \<in> {9, 10, 11, 12, 13, 32})"

definition TrimSpace :: "string \<Rightarrow> string" where
  "TrimSpace s = rev (dropWhile isSpace (rev (dropWhile isSpace s)))"

section \<open>The host's resource data\<close>

text \<open>
  \<^verbatim>\<open>schema.ResourceData\<close> belongs to the plugin SDK. The callbacks see it only through
  its methods, so the record holds what those methods answer: \<open>Id_rd\<close> is \<^verbatim>\<open>d.Id()\<close>,
  \<open>Get\<close>, \<open>GetOk\<close> and \<open>HasChange\<close> are the answers of the methods of these names
  (\<open>HasChange k\<close> says that the previous and the desired value of \<open>k\<close> differ, the flag of
  \<open>GetOk k\<close> that the desired value is set and not the zero value), \<open>Set_result k v\<close> is
  the error with which the host refuses \<^verbatim>\<open>d.Set(k, v)\<close>, if it does, and \<open>written\<close>
  lists the values stored by \<^verbatim>\<open>d.Set\<close>, oldest first.
\<close>

record ResourceData =
  Id_rd :: string
  Get :: "string \<Rightarrow> val"
  GetOk :: "string \<Rightarrow> val \<times> bool"
  HasChange :: "string \<Rightarrow> bool"
  Set_result :: "string \<Rightarrow> val \<Rightarrow> string option"
  written :: "(string \<times> val) list"

definition Set_rd :: "ResourceData \<Rightarrow> string \<Rightarrow> val \<Rightarrow> error option \<times> ResourceData" where
  "Set_rd d k v =
     (case Set_result d k v of
        Some msg \<Rightarrow> (Some (HostError msg), d)
      | None \<Rightarrow> (None, d\<lparr>written := written d @ [(k, v)]\<rparr>))"

definition SetId :: "ResourceData \<Rightarrow> string \<Rightarrow> ResourceData" where
  "SetId d i = d\<lparr>Id_rd := i\<rparr>"

text \<open>
  \<^verbatim>\<open>if err := d.Set(k, v); err != nil { return err }\<close> followed by the rest of the
  function, and \<^verbatim>\<open>d.Set(k, v)\<close> with the error dropped.
\<close>

definition checked ::
  "error option \<times> ResourceData \<Rightarrow> (ResourceData \<Rightarrow> panic + error option \<times> ResourceData)
     \<Rightarrow> panic + error option \<times> ResourceData" where
  "checked r rest = (case r of (Some e, d) \<Rightarrow> Inr (Some e, d) | (None, d) \<Rightarrow> rest d)"

definition ignoring :: "error option \<times> ResourceData \<Rightarrow> ResourceData" where
  "ignoring r = snd r"

section \<open>Keys\<close>

definition authmethodTypePassword :: string where
  "authmethodTypePassword = ''password''"

definition authmethodMinLoginNameLengthKey :: string where
  "authmethodMinLoginNameLengthKey = ''min_login_name_length''"

definition authmethodMinPasswordLengthKey :: string where
  "authmethodMinPasswordLengthKey = ''min_password_length''"

definition authmethodTypeOidc :: string where
  "authmethodTypeOidc = ''oidc''"

definition authmethodOidcStateKey :: string where
  "authmethodOidcStateKey = ''state''"

definition authmethodOidcClientIdKey :: string where
  "authmethodOidcClientIdKey = ''client_id''"

definition authmethodOidcClientSecretKey :: string where
  "authmethodOidcClientSecretKey = ''client_secret''"

definition authmethodOidcClientSecretHmacKey :: string where
  "authmethodOidcClientSecretHmacKey = ''client_secret_hmac''"

definition authmethodOidcMaxAgeKey :: string where
  "authmethodOidcMaxAgeKey = ''max_age''"

definition authmethodOidcSigningAlgorithmsKey :: string where
  "authmethodOidcSigningAlgorithmsKey = ''signing_algorithms''"

definition authmethodOidcApiUrlPrefixKey :: string where
  "authmethodOidcApiUrlPrefixKey = ''api_url_prefix''"

definition authmethodOidcCallbackUrlKey :: string where
  "authmethodOidcCallbackUrlKey = ''callback_url''"

definition authmethodOidcAllowedAudiencesKey :: string where
  "authmethodOidcAllowedAudiencesKey = ''allowed_audiences''"

text \<open>
  Modelled from the spec: the constants \<^verbatim>\<open>NameKey\<close>, \<^verbatim>\<open>DescriptionKey\<close>,
  \<^verbatim>\<open>ScopeIdKey\<close> and \<^verbatim>\<open>TypeKey\<close> are declared outside the files under src/; the
  spec's configuration surface names them \<open>name\<close>, \<open>description\<close>, \<open>scope_id\<close> and
  \<open>type\<close>.
\<close>

definition NameKey :: string where
  "NameKey = ''name''"

definition DescriptionKey :: string where
  "DescriptionKey = ''description''"

definition ScopeIdKey :: string where
  "ScopeIdKey = ''scope_id''"

definition TypeKey :: string where
  "TypeKey = ''type''"

text \<open>
  Modelled from the spec: the constants \<^verbatim>\<open>authmethodOidcIssuerKey\<close>,
  \<^verbatim>\<open>authmethodOidcCaCertificatesKey\<close> and
  \<^verbatim>\<open>authmethodOidcDisableDiscoveredConfigValidationKey\<close> are used by the source and
  declared nowhere under src/; they are named after the spec's fields \<open>issuer\<close>,
  \<open>caCertificates\<close> and \<open>disableDiscoveredConfigValidation\<close>.
\<close>

definition authmethodOidcIssuerKey :: string where
  "authmethodOidcIssuerKey = ''issuer''"

definition authmethodOidcCaCertificatesKey :: string where
  "authmethodOidcCaCertificatesKey = ''ca_certificates''"

definition authmethodOidcDisableDiscoveredConfigValidationKey :: string where
  "authmethodOidcDisableDiscoveredConfigValidationKey = ''disable_discovered_config_validation''"

section \<open>Decoding a response: \<^verbatim>\<open>setFromAuthMethodResponseMap\<close>\<close>

text \<open>
  The two loops \<^verbatim>\<open>for _, cert := range ... { stripC = append(stripC,
  strings.TrimSpace(cert.(string))) }\<close>: each element is asserted to be a string and
  trimmed, in order; the first element that is no string panics.
\<close>

fun stripped :: "val list \<Rightarrow> panic + string list" where
  "stripped [] = Inr []"
| "stripped (c # cs) =
     asserting (as_string c) (\<lambda>s. asserting (stripped cs) (\<lambda>ss. Inr (TrimSpace s # ss)))"

text \<open>
  The loop over \<^verbatim>\<open>sometimesString\<close>: a key that is present is asserted to be a string
  and stored, a key that is absent is skipped.
\<close>

fun setSometimes :: "ResourceData \<Rightarrow> (string \<times> val) list \<Rightarrow> string list \<Rightarrow> panic + ResourceData" where
  "setSometimes d attrs [] = Inr d"
| "setSometimes d attrs (k # ks) =
     (case map_of attrs k of
        None \<Rightarrow> setSometimes d attrs ks
      | Some v \<Rightarrow>
          asserting (as_string v) (\<lambda>s. setSometimes (ignoring (Set_rd d k (VString s))) attrs ks))"

text \<open>The password arm of the switch, from the assertion of \<^verbatim>\<open>attrsVal\<close> on.\<close>

definition setPasswordAttributes ::
  "ResourceData \<Rightarrow> val \<Rightarrow> (ResourceData \<Rightarrow> panic + error option \<times> ResourceData)
     \<Rightarrow> panic + error option \<times> ResourceData" where
  "setPasswordAttributes d attrsVal rest =
     asserting (as_map attrsVal) (\<lambda>attrs.
     asserting (as_Number (index attrs authmethodMinLoginNameLengthKey)) (\<lambda>minLoginNameLength.
     checked (Set_rd d authmethodMinLoginNameLengthKey (VInt (Int64 minLoginNameLength))) (\<lambda>d.
     asserting (as_Number (index attrs authmethodMinPasswordLengthKey)) (\<lambda>minPasswordLength.
     checked (Set_rd d authmethodMinPasswordLengthKey (VInt (Int64 minPasswordLength))) rest))))"

text \<open>
  The OIDC arm. The errors of \<^verbatim>\<open>d.Set\<close> are dropped here, as in the source. The
  \<^verbatim>\<open>fmt.Printf\<close> of the certificates writes to standard output only and is left out.
\<close>

definition setOidcAttributes ::
  "ResourceData \<Rightarrow> val \<Rightarrow> (ResourceData \<Rightarrow> panic + error option \<times> ResourceData)
     \<Rightarrow> panic + error option \<times> ResourceData" where
  "setOidcAttributes d attrsVal rest =
     asserting (as_map attrsVal) (\<lambda>attrs.
     asserting (as_string (index attrs authmethodOidcStateKey)) (\<lambda>state.
     let d = ignoring (Set_rd d authmethodOidcStateKey (VString state)) in
     asserting (as_string (index attrs authmethodOidcIssuerKey)) (\<lambda>issuer.
     let d = ignoring (Set_rd d authmethodOidcIssuerKey (VString issuer)) in
     asserting (as_string (index attrs authmethodOidcClientIdKey)) (\<lambda>clientId.
     let d = ignoring (Set_rd d authmethodOidcClientIdKey (VString clientId)) in
     asserting (as_string (index attrs authmethodOidcClientSecretHmacKey)) (\<lambda>hmac.
     let d = ignoring (Set_rd d authmethodOidcClientSecretHmacKey (VString hmac)) in
     asserting (as_list (index attrs authmethodOidcCaCertificatesKey)) (\<lambda>certs.
     asserting (stripped certs) (\<lambda>stripC.
     let d = ignoring (Set_rd d authmethodOidcCaCertificatesKey (VStrings stripC)) in
     asserting (as_list (index attrs authmethodOidcAllowedAudiencesKey)) (\<lambda>auds.
     asserting (stripped auds) (\<lambda>stripA.
     let d = ignoring (Set_rd d authmethodOidcAllowedAudiencesKey (VStrings stripA)) in
     asserting (as_Number (index attrs authmethodOidcMaxAgeKey)) (\<lambda>maxAge.
     let d = ignoring (Set_rd d authmethodOidcMaxAgeKey (VInt64 (Int64 maxAge))) in
     asserting (setSometimes d attrs
        [authmethodOidcApiUrlPrefixKey, authmethodOidcCallbackUrlKey,
         authmethodOidcDisableDiscoveredConfigValidationKey]) (\<lambda>d.
     case map_of attrs authmethodOidcSigningAlgorithmsKey of
       None \<Rightarrow> rest d
     | Some v \<Rightarrow>
         asserting (as_list v) (\<lambda>algs.
         rest (ignoring (Set_rd d authmethodOidcSigningAlgorithmsKey (VList algs)))))))))))))))"

text \<open>The end of the function: \<^verbatim>\<open>d.SetId(raw["id"].(string)); return nil\<close>.\<close>

definition setIdFromResponse ::
  "(string \<times> val) list \<Rightarrow> ResourceData \<Rightarrow> panic + error option \<times> ResourceData" where
  "setIdFromResponse raw d = asserting (as_string (index raw ''id'')) (\<lambda>i. Inr (None, SetId d i))"

text \<open>
  The result is a panic, or the returned error (\<open>None\<close> is nil) with the resource data as
  the call leaves it.
\<close>

definition setFromAuthMethodResponseMap ::
  "ResourceData \<Rightarrow> (string \<times> val) list \<Rightarrow> panic + error option \<times> ResourceData" where
  "setFromAuthMethodResponseMap d raw =
     checked (Set_rd d NameKey (index raw ''name'')) (\<lambda>d.
     checked (Set_rd d DescriptionKey (index raw ''description'')) (\<lambda>d.
     checked (Set_rd d ScopeIdKey (index raw ''scope_id'')) (\<lambda>d.
     checked (Set_rd d TypeKey (index raw ''type'')) (\<lambda>d.
     asserting (as_string (index raw TypeKey)) (\<lambda>t.
       if t = authmethodTypePassword then
         (case map_of raw ''attributes'' of
            None \<Rightarrow> setIdFromResponse raw d
          | Some attrsVal \<Rightarrow> setPasswordAttributes d attrsVal (setIdFromResponse raw))
       else if t = authmethodTypeOidc then
         (case map_of raw ''attributes'' of
            None \<Rightarrow> setIdFromResponse raw d
          | Some attrsVal \<Rightarrow> setOidcAttributes d attrsVal (setIdFromResponse raw))
       else Inr (Some errorInvalidAuthMethodType, d))))))"

section \<open>The remote client\<close>

text \<open>
  The options of package \<^verbatim>\<open>authmethods\<close> that the source builds, as data.
\<close>

datatype amopt =
    WithName string
  | DefaultName
  | WithDescription string
  | DefaultDescription
  | WithPasswordAuthMethodMinLoginNameLength "32 word"
  | DefaultPasswordAuthMethodMinLoginNameLength
  | WithPasswordAuthMethodMinPasswordLength "32 word"
  | DefaultPasswordAuthMethodMinPasswordLength
  | WithOidcAuthMethodIssuer string
  | WithOidcAuthMethodClientId string
  | WithOidcAuthMethodClientSecret string
  | WithOidcAuthMethodMaxAge "32 word"
  | WithOidcAuthMethodApiUrlPrefix string
  | WithOidcAuthMethodIdpCaCerts "string list"
  | WithOidcAuthMethodAllowedAudiences "string list"
  | WithOidcAuthMethodDisableDiscoveredConfigValidation bool
  | WithOidcAuthMethodSigningAlgorithms "string list"
  | WithAutomaticVersioning bool

text \<open>
  A call of the client returns a result and an error: the error if it is not nil, else a
  nil result or a result with the decoded response map. The client itself (the service
  behind it) is a parameter of the callbacks: one function per method.
\<close>

datatype reply = Failure api_error | NilResult | Response "(string \<times> val) list"

record Client =
  Create_remote :: "string \<Rightarrow> string \<Rightarrow> amopt list \<Rightarrow> reply"
  Read_remote :: "string \<Rightarrow> reply"
  Update_remote :: "string \<Rightarrow> 32 word \<Rightarrow> amopt list \<Rightarrow> reply"
  Delete_remote :: "string \<Rightarrow> reply"

text \<open>The remote calls a callback issues, in order.\<close>

datatype call =
    CreateCall string string "amopt list"
  | ReadCall string
  | UpdateCall string "32 word" "amopt list"
  | DeleteCall string

text \<open>
  A callback returns its diagnostics (the empty list is success) or panics; with it come
  the resource data as the callback leaves it and the remote calls it issued.
\<close>

datatype outcome = Returned "error list" | Panicked panic

type_synonym result = "outcome \<times> ResourceData \<times> call list"

text \<open>
  \<^verbatim>\<open>if err := ...; err != nil { return diag.FromErr(err) }; return nil\<close> at the end of
  a callback that issued the calls \<open>cs\<close>; after a panic the resource data are those the
  callback started with.
\<close>

definition finished ::
  "panic + error option \<times> ResourceData \<Rightarrow> ResourceData \<Rightarrow> call list \<Rightarrow> result" where
  "finished r d cs =
     (case r of
        Inl p \<Rightarrow> (Panicked p, d, cs)
      | Inr (Some e, d') \<Rightarrow> (Returned [e], d', cs)
      | Inr (None, d') \<Rightarrow> (Returned [], d', cs))"

section \<open>Building options\<close>

text \<open>
  Every option of a request comes from a block of the shape
  \<^verbatim>\<open>if v, ok := d.GetOk(k); ok { opts = append(opts, W(v.(T))) }\<close>. \<open>withOk\<close> is what one
  such block appends, \<open>conv\<close> being the assertion and conversion of the value; \<open>appended\<close>
  runs the blocks in order, and the first panic ends the run.
\<close>

definition withOk ::
  "ResourceData \<Rightarrow> string \<Rightarrow> (val \<Rightarrow> panic + 'a) \<Rightarrow> ('a \<Rightarrow> amopt) \<Rightarrow> panic + amopt list" where
  "withOk d k conv W =
     (case GetOk d k of
        (v, True) \<Rightarrow> asserting (conv v) (\<lambda>x. Inr [W x])
      | (v, False) \<Rightarrow> Inr [])"

fun appended :: "(panic + amopt list) list \<Rightarrow> panic + amopt list" where
  "appended [] = Inr []"
| "appended (m # ms) = asserting m (\<lambda>xs. asserting (appended ms) (\<lambda>ys. Inr (xs @ ys)))"

text \<open>
  \<^verbatim>\<open>for _, c := range v.([]interface{}) { l = append(l, c.(string)) }\<close>, and the same
  loop with \<^verbatim>\<open>strings.TrimSpace(c.(string))\<close>.
\<close>

fun asserted :: "val list \<Rightarrow> panic + string list" where
  "asserted [] = Inr []"
| "asserted (c # cs) =
     asserting (as_string c) (\<lambda>s. asserting (asserted cs) (\<lambda>ss. Inr (s # ss)))"

definition as_string_list :: "val \<Rightarrow> panic + string list" where
  "as_string_list v = asserting (as_list v) asserted"

definition as_stripped_list :: "val \<Rightarrow> panic + string list" where
  "as_stripped_list v = asserting (as_list v) stripped"

section \<open>\<^verbatim>\<open>resourceAuthMethodCreate\<close>\<close>

definition passwordCreateOptions :: "ResourceData \<Rightarrow> (panic + amopt list) list" where
  "passwordCreateOptions d =
     [withOk d authmethodMinLoginNameLengthKey as_uint32 WithPasswordAuthMethodMinLoginNameLength,
      withOk d authmethodMinPasswordLengthKey as_uint32 WithPasswordAuthMethodMinPasswordLength]"

definition oidcCreateOptions :: "ResourceData \<Rightarrow> (panic + amopt list) list" where
  "oidcCreateOptions d =
     [withOk d authmethodOidcIssuerKey as_string WithOidcAuthMethodIssuer,
      withOk d authmethodOidcClientIdKey as_string WithOidcAuthMethodClientId,
      withOk d authmethodOidcClientSecretKey as_string WithOidcAuthMethodClientSecret,
      withOk d authmethodOidcMaxAgeKey as_uint32 WithOidcAuthMethodMaxAge,
      withOk d authmethodOidcApiUrlPrefixKey as_string WithOidcAuthMethodApiUrlPrefix,
      withOk d authmethodOidcCaCertificatesKey as_stripped_list WithOidcAuthMethodIdpCaCerts,
      withOk d authmethodOidcAllowedAudiencesKey as_string_list WithOidcAuthMethodAllowedAudiences,
      withOk d authmethodOidcDisableDiscoveredConfigValidationKey as_bool
        WithOidcAuthMethodDisableDiscoveredConfigValidation,
      withOk d authmethodOidcSigningAlgorithmsKey as_string_list WithOidcAuthMethodSigningAlgorithms]"

definition commonCreateOptions :: "ResourceData \<Rightarrow> (panic + amopt list) list" where
  "commonCreateOptions d =
     [withOk d NameKey as_string WithName,
      withOk d DescriptionKey as_string WithDescription]"

text \<open>
  The switch on the type and the two blocks after it: a panic, the error of the default
  arm, or the options.
\<close>

definition createOptions :: "ResourceData \<Rightarrow> string \<Rightarrow> panic + error + amopt list" where
  "createOptions d typeStr =
     (if typeStr = authmethodTypePassword then
        asserting (appended (passwordCreateOptions d @ commonCreateOptions d)) (\<lambda>opts. Inr (Inr opts))
      else if typeStr = authmethodTypeOidc then
        asserting (appended (oidcCreateOptions d @ commonCreateOptions d)) (\<lambda>opts. Inr (Inr opts))
      else Inr (Inl errorInvalidAuthMethodType))"

definition resourceAuthMethodCreate :: "Client \<Rightarrow> ResourceData \<Rightarrow> result" where
  "resourceAuthMethodCreate c d =
     (case GetOk d TypeKey of
        (typeVal, False) \<Rightarrow> (Returned [NoTypeProvided], d, [])
      | (typeVal, True) \<Rightarrow>
          (case as_string typeVal of
             Inl p \<Rightarrow> (Panicked p, d, [])
           | Inr typeStr \<Rightarrow>
               (case createOptions d typeStr of
                  Inl p \<Rightarrow> (Panicked p, d, [])
                | Inr (Inl e) \<Rightarrow> (Returned [e], d, [])
                | Inr (Inr opts) \<Rightarrow>
                    (case GetOk d ScopeIdKey of
                       (scopeIdVal, False) \<Rightarrow> (Returned [NoScopeIdProvided], d, [])
                     | (scopeIdVal, True) \<Rightarrow>
                         (case as_string scopeIdVal of
                            Inl p \<Rightarrow> (Panicked p, d, [])
                          | Inr scopeId \<Rightarrow>
                              (case Create_remote c typeStr scopeId opts of
                                 Failure err \<Rightarrow>
                                   (Returned [ErrorCreating err], d, [CreateCall typeStr scopeId opts])
                               | NilResult \<Rightarrow>
                                   (Returned [NilAfterCreate], d, [CreateCall typeStr scopeId opts])
                               | Response m \<Rightarrow>
                                   finished (setFromAuthMethodResponseMap d m) d
                                     [CreateCall typeStr scopeId opts]))))))"

section \<open>\<^verbatim>\<open>resourceAuthMethodRead\<close>\<close>

text \<open>
  On an error the source evaluates \<^verbatim>\<open>api.AsServerError(err).Response().StatusCode()\<close>
  with no test of the pointer (the test file under src/ makes that test:
  \<^verbatim>\<open>apiErr == nil || ...\<close>). For an error that is no structured error of the service the
  pointer is nil, and \<^verbatim>\<open>Response()\<close> reads a field through it.
\<close>

definition resourceAuthMethodRead :: "Client \<Rightarrow> ResourceData \<Rightarrow> result" where
  "resourceAuthMethodRead c d =
     (case Read_remote c (Id_rd d) of
        Failure err \<Rightarrow>
          (case AsServerError err of
             None \<Rightarrow> (Panicked NilDereference, d, [ReadCall (Id_rd d)])
           | Some (status, msg) \<Rightarrow>
               if status = StatusNotFound then (Returned [], SetId d [], [ReadCall (Id_rd d)])
               else (Returned [ErrorReading err], d, [ReadCall (Id_rd d)]))
      | NilResult \<Rightarrow> (Returned [NilAfterRead], d, [ReadCall (Id_rd d)])
      | Response m \<Rightarrow> finished (setFromAuthMethodResponseMap d m) d [ReadCall (Id_rd d)])"

section \<open>\<^verbatim>\<open>resourceAuthMethodUpdate\<close>\<close>

text \<open>
  The blocks of the update: \<^verbatim>\<open>if d.HasChange(k) { opts = append(opts, D()); if v, ok :=
  d.GetOk(k); ok { opts = append(opts, W(v.(T))) } }\<close> for the name, the description and
  the two password lengths, and the same without the option \<^verbatim>\<open>D()\<close> for the OIDC
  attributes.
\<close>

definition changedWithDefault ::
  "ResourceData \<Rightarrow> string \<Rightarrow> amopt \<Rightarrow> (val \<Rightarrow> panic + 'a) \<Rightarrow> ('a \<Rightarrow> amopt)
     \<Rightarrow> panic + amopt list" where
  "changedWithDefault d k D conv W =
     (if HasChange d k then asserting (withOk d k conv W) (\<lambda>ys. Inr (D # ys)) else Inr [])"

definition changed ::
  "ResourceData \<Rightarrow> string \<Rightarrow> (val \<Rightarrow> panic + 'a) \<Rightarrow> ('a \<Rightarrow> amopt) \<Rightarrow> panic + amopt list" where
  "changed d k conv W = (if HasChange d k then withOk d k conv W else Inr [])"

definition commonUpdateOptions :: "ResourceData \<Rightarrow> (panic + amopt list) list" where
  "commonUpdateOptions d =
     [changedWithDefault d NameKey DefaultName as_string WithName,
      changedWithDefault d DescriptionKey DefaultDescription as_string WithDescription]"

definition passwordUpdateOptions :: "ResourceData \<Rightarrow> (panic + amopt list) list" where
  "passwordUpdateOptions d =
     [changedWithDefault d authmethodMinLoginNameLengthKey
        DefaultPasswordAuthMethodMinLoginNameLength as_uint32 WithPasswordAuthMethodMinLoginNameLength,
      changedWithDefault d authmethodMinPasswordLengthKey
        DefaultPasswordAuthMethodMinPasswordLength as_uint32 WithPasswordAuthMethodMinPasswordLength]"

text \<open>
  In the update the three lists are asserted to be \<^verbatim>\<open>[]string\<close>; the certificates
  are then trimmed one by one.
\<close>

definition as_stripped_strings :: "val \<Rightarrow> panic + string list" where
  "as_stripped_strings v = asserting (as_strings v) (\<lambda>ss. Inr (map TrimSpace ss))"

definition oidcUpdateOptions :: "ResourceData \<Rightarrow> (panic + amopt list) list" where
  "oidcUpdateOptions d =
     [changed d authmethodOidcIssuerKey as_string WithOidcAuthMethodIssuer,
      changed d authmethodOidcClientIdKey as_string WithOidcAuthMethodClientId,
      changed d authmethodOidcClientSecretKey as_string WithOidcAuthMethodClientSecret,
      changed d authmethodOidcMaxAgeKey as_uint32 WithOidcAuthMethodMaxAge,
      changed d authmethodOidcSigningAlgorithmsKey as_strings WithOidcAuthMethodSigningAlgorithms,
      changed d authmethodOidcApiUrlPrefixKey as_string WithOidcAuthMethodApiUrlPrefix,
      changed d authmethodOidcClientSecretHmacKey as_string WithOidcAuthMethodClientSecret,
      changed d authmethodOidcAllowedAudiencesKey as_strings WithOidcAuthMethodAllowedAudiences,
      changed d authmethodOidcCaCertificatesKey as_stripped_strings WithOidcAuthMethodIdpCaCerts,
      changed d authmethodOidcDisableDiscoveredConfigValidationKey as_bool
        WithOidcAuthMethodDisableDiscoveredConfigValidation]"

text \<open>
  The options of the update, up to the end of the switch: a panic, the error of the
  default arm, or the options.
\<close>

definition updateOptions :: "ResourceData \<Rightarrow> panic + error + amopt list" where
  "updateOptions d =
     asserting (appended (commonUpdateOptions d)) (\<lambda>opts.
     asserting (as_string (Get d TypeKey)) (\<lambda>typeStr.
       if typeStr = authmethodTypePassword then
         asserting (appended (passwordUpdateOptions d)) (\<lambda>ys. Inr (Inr (opts @ ys)))
       else if typeStr = authmethodTypeOidc then
         asserting (appended (oidcUpdateOptions d)) (\<lambda>ys. Inr (Inr (opts @ ys)))
       else Inr (Inl errorInvalidAuthMethodType)))"

text \<open>
  The end of the function stores four fields that changed. The values it stores are the
  variables \<^verbatim>\<open>name\<close>, \<^verbatim>\<open>desc\<close>, \<^verbatim>\<open>minLoginNameLength\<close> and
  \<^verbatim>\<open>minPasswordLength\<close>, which the function under src/ declares nowhere: they are
  parameters here.
\<close>

definition setIfChanged :: "ResourceData \<Rightarrow> string \<Rightarrow> val \<Rightarrow> error option \<times> ResourceData" where
  "setIfChanged d k v = (if HasChange d k then Set_rd d k v else (None, d))"

definition storeChanged ::
  "ResourceData \<Rightarrow> val \<Rightarrow> val \<Rightarrow> val \<Rightarrow> val \<Rightarrow> panic + error option \<times> ResourceData" where
  "storeChanged d name desc minLoginNameLength minPasswordLength =
     checked (setIfChanged d NameKey name) (\<lambda>d.
     checked (setIfChanged d DescriptionKey desc) (\<lambda>d.
     checked (setIfChanged d authmethodMinLoginNameLengthKey minLoginNameLength) (\<lambda>d.
     checked (setIfChanged d authmethodMinPasswordLengthKey minPasswordLength) (\<lambda>d.
     Inr (None, d)))))"

text \<open>
  The block opened by \<^verbatim>\<open>if len(opts) > 0 {\<close> has no closing brace in the source; it
  ends where the indentation of the source ends it, after the test of the error of the
  remote update. The result of the remote update is not used otherwise.
\<close>

definition resourceAuthMethodUpdate ::
  "Client \<Rightarrow> ResourceData \<Rightarrow> val \<Rightarrow> val \<Rightarrow> val \<Rightarrow> val \<Rightarrow> result" where
  "resourceAuthMethodUpdate c d name desc minLoginNameLength minPasswordLength =
     (case updateOptions d of
        Inl p \<Rightarrow> (Panicked p, d, [])
      | Inr (Inl e) \<Rightarrow> (Returned [e], d, [])
      | Inr (Inr opts) \<Rightarrow>
          if opts \<noteq> [] then
            (case Update_remote c (Id_rd d) 0 (opts @ [WithAutomaticVersioning True]) of
               Failure err \<Rightarrow>
                 (Returned [ErrorUpdating err], d,
                  [UpdateCall (Id_rd d) 0 (opts @ [WithAutomaticVersioning True])])
             | _ \<Rightarrow>
                 finished (storeChanged d name desc minLoginNameLength minPasswordLength) d
                   [UpdateCall (Id_rd d) 0 (opts @ [WithAutomaticVersioning True])])
          else finished (storeChanged d name desc minLoginNameLength minPasswordLength) d [])"

section \<open>\<^verbatim>\<open>resourceAuthMethodDelete\<close>\<close>

definition resourceAuthMethodDelete :: "Client \<Rightarrow> ResourceData \<Rightarrow> result" where
  "resourceAuthMethodDelete c d =
     (case Delete_remote c (Id_rd d) of
        Failure err \<Rightarrow> (Returned [ErrorDeleting err], d, [DeleteCall (Id_rd d)])
      | _ \<Rightarrow> (Returned [], d, [DeleteCall (Id_rd d)]))"

section \<open>Example inputs\<close>

text \<open>
  A host that answers from a list of desired values and a list of changed keys and accepts
  every \<^verbatim>\<open>d.Set\<close>, and a client that gives the same reply to every call.
\<close>

definition host :: "string \<Rightarrow> (string \<times> val) list \<Rightarrow> string list \<Rightarrow> ResourceData" where
  "host i desired changedKeys =
     \<lparr>Id_rd = i,
      Get = index desired,
      GetOk = (\<lambda>k. case map_of desired k of None \<Rightarrow> (VNil, False) | Some v \<Rightarrow> (v, True)),
      HasChange = (\<lambda>k. k \<in> set changedKeys),
      Set_result = (\<lambda>k v. None),
      written = []\<rparr>"

definition answering :: "reply \<Rightarrow> Client" where
  "answering r =
     \<lparr>Create_remote = (\<lambda>t s opts. r), Read_remote = (\<lambda>i. r),
      Update_remote = (\<lambda>i v opts. r), Delete_remote = (\<lambda>i. r)\<rparr>"

text \<open>
  A password auth method of which the host reports the name, the scope and the type as
  changed, and one with no change.
\<close>

definition renamed :: ResourceData where
  "renamed = host ''ampw_1''
     [(''type'', VString ''password''), (''scope_id'', VString ''o_2''), (''name'', VString ''new'')]
     [''name'', ''scope_id'', ''type'']"

definition settled :: ResourceData where
  "settled = host ''ampw_1''
     [(''type'', VString ''password''), (''scope_id'', VString ''global''), (''name'', VString ''pw'')] []"

definition renamedOnly :: ResourceData where
  "renamedOnly = host ''ampw_1''
     [(''type'', VString ''password''), (''scope_id'', VString ''o_2''), (''name'', VString ''new'')]
     [''name'']"

text \<open>
  Configurations handed to create: none at all, a type that is no auth method type with
  no scope, and a password auth method with no scope.
\<close>

definition unconfigured :: ResourceData where
  "unconfigured = host [] [] []"

definition ldapNoScope :: ResourceData where
  "ldapNoScope = host [] [(''type'', VString ''ldap'')] []"

definition passwordNoScope :: ResourceData where
  "passwordNoScope = host [] [(''type'', VString ''password''), (''name'', VString ''pw'')] []"

text \<open>An OIDC auth method of which only the HMAC of the client secret changed.\<close>

definition rekeyed :: ResourceData where
  "rekeyed = host ''amoidc_1''
     [(''type'', VString ''oidc''), (''scope_id'', VString ''global''),
      (''client_secret_hmac'', VString ''hmac-from-server'')]
     [''client_secret_hmac'']"

section \<open>Basic facts\<close>

lemmas key_defs = authmethodTypePassword_def authmethodMinLoginNameLengthKey_def
  authmethodMinPasswordLengthKey_def authmethodTypeOidc_def authmethodOidcStateKey_def
  authmethodOidcClientIdKey_def authmethodOidcClientSecretKey_def
  authmethodOidcClientSecretHmacKey_def authmethodOidcMaxAgeKey_def
  authmethodOidcSigningAlgorithmsKey_def authmethodOidcApiUrlPrefixKey_def
  authmethodOidcCallbackUrlKey_def authmethodOidcAllowedAudiencesKey_def
  NameKey_def DescriptionKey_def ScopeIdKey_def TypeKey_def authmethodOidcIssuerKey_def
  authmethodOidcCaCertificatesKey_def authmethodOidcDisableDiscoveredConfigValidationKey_def

lemmas create_defs = resourceAuthMethodCreate_def createOptions_def passwordCreateOptions_def
  oidcCreateOptions_def commonCreateOptions_def withOk_def finished_def

lemmas update_defs = resourceAuthMethodUpdate_def updateOptions_def commonUpdateOptions_def
  passwordUpdateOptions_def oidcUpdateOptions_def changedWithDefault_def changed_def withOk_def
  storeChanged_def setIfChanged_def checked_def finished_def Set_rd_def

lemma asserting_Inr [simp]: "asserting m f = Inr y \<longleftrightarrow> (\<exists>x. m = Inr x \<and> f x = Inr y)"
  by (cases m) (simp_all add: asserting_def)

lemma asserting_simps [simp]: "asserting (Inl p) f = Inl p" "asserting (Inr x) f = f x"
  by (simp_all add: asserting_def)

lemma as_string_Inr [simp]: "as_string v = Inr s \<longleftrightarrow> v = VString s"
  by (cases v) auto

lemma as_Number_Inr [simp]: "as_Number v = Inr s \<longleftrightarrow> v = VNumber s"
  by (cases v) auto

lemma as_int_Inr [simp]: "as_int v = Inr i \<longleftrightarrow> v = VInt i"
  by (cases v) auto

lemma as_bool_Inr [simp]: "as_bool v = Inr b \<longleftrightarrow> v = VBool b"
  by (cases v) auto

lemma as_strings_Inr [simp]: "as_strings v = Inr ss \<longleftrightarrow> v = VStrings ss"
  by (cases v) auto

lemma as_list_Inr [simp]: "as_list v = Inr vs \<longleftrightarrow> v = VList vs"
  by (cases v) auto

lemma as_map_Inr [simp]: "as_map v = Inr m \<longleftrightarrow> v = VMap m"
  by (cases v) auto

lemma appended_Inr:
  "appended ms = Inr opts \<Longrightarrow> m \<in> set ms \<Longrightarrow> \<exists>ys. m = Inr ys \<and> set ys \<subseteq> set opts"
proof (induction ms arbitrary: opts)
  case Nil
  then show ?case by simp
next
  case (Cons a ms)
  from Cons.prems(1) obtain xs zs where a: "a = Inr xs" and zs: "appended ms = Inr zs"
    and opts: "opts = xs @ zs" by auto
  show ?case
  proof (cases "m = a")
    case True
    with a opts show ?thesis by auto
  next
    case False
    with Cons.prems(2) have "m \<in> set ms" by simp
    from Cons.IH [OF zs this] opts show ?thesis by auto
  qed
qed

lemma appended_mem:
  "appended ms = Inr opts \<Longrightarrow> x \<in> set opts \<Longrightarrow> \<exists>m\<in>set ms. \<exists>ys. m = Inr ys \<and> x \<in> set ys"
  by (induction ms arbitrary: opts) auto

lemma appended_Nil: "appended ms = Inr [] \<longleftrightarrow> (\<forall>m\<in>set ms. m = Inr [])"
  by (induction ms) auto

lemma finished_calls: "snd (snd (finished r d cs)) = cs"
  by (auto simp: finished_def split: sum.splits option.splits)

section \<open>Update\<close>

lemma changedWithDefault_unchanged: "\<not> HasChange d k \<Longrightarrow> changedWithDefault d k D conv W = Inr []"
  by (simp add: changedWithDefault_def)

lemma changed_unchanged: "\<not> HasChange d k \<Longrightarrow> changed d k conv W = Inr []"
  by (simp add: changed_def)

lemma storeChanged_unchanged:
  "\<lbrakk>\<not> HasChange d NameKey; \<not> HasChange d DescriptionKey;
    \<not> HasChange d authmethodMinLoginNameLengthKey; \<not> HasChange d authmethodMinPasswordLengthKey\<rbrakk>
   \<Longrightarrow> storeChanged d n ds a b = Inr (None, d)"
  by (simp add: storeChanged_def setIfChanged_def checked_def)

lemma updateOptions_unchanged:
  assumes "\<forall>k. \<not> HasChange d k"
  shows "updateOptions d =
     asserting (as_string (Get d TypeKey)) (\<lambda>t.
       if t = authmethodTypePassword \<or> t = authmethodTypeOidc then Inr (Inr [])
       else Inr (Inl errorInvalidAuthMethodType))"
  using assms
  by (cases "as_string (Get d TypeKey)")
     (simp_all add: updateOptions_def commonUpdateOptions_def passwordUpdateOptions_def
       oidcUpdateOptions_def changedWithDefault_unchanged changed_unchanged)

lemma empty_options_no_call:
  "updateOptions d = Inr (Inr []) \<Longrightarrow>
   snd (snd (resourceAuthMethodUpdate c d name desc a b)) = []"
  by (simp add: resourceAuthMethodUpdate_def finished_calls)

lemma renamed_run:
  "resourceAuthMethodUpdate (answering NilResult) renamed (VString ''new'') VNil VNil VNil =
   (Returned [], renamed\<lparr>written := [(''name'', VString ''new'')]\<rparr>,
    [UpdateCall ''ampw_1'' 0 [DefaultName, WithName ''new'', WithAutomaticVersioning True]])"
  by (simp add: update_defs key_defs renamed_def host_def answering_def index_def)

text \<open>
  C1. An update in which no field differs between the previous and the desired state (the
  host reports no change for any key) issues no remote call and leaves the resource data
  as they were; with a desired type of password or oidc it returns no diagnostic.
\<close>

theorem update_without_change:
  assumes "\<forall>k. \<not> HasChange d k"
  shows "snd (resourceAuthMethodUpdate c d name desc minLoginNameLength minPasswordLength) = (d, [])
    \<and> (Get d TypeKey = VString authmethodTypePassword \<or> Get d TypeKey = VString authmethodTypeOidc
         \<longrightarrow> fst (resourceAuthMethodUpdate c d name desc minLoginNameLength minPasswordLength)
               = Returned [])"
proof -
  have st: "storeChanged d name desc minLoginNameLength minPasswordLength = Inr (None, d)"
    using assms by (simp add: storeChanged_unchanged)
  show ?thesis
    by (cases "as_string (Get d TypeKey)")
       (auto simp: resourceAuthMethodUpdate_def updateOptions_unchanged [OF assms] st finished_def)
qed

theorem update_without_change_witness:
  "(\<forall>k. \<not> HasChange settled k) \<and>
   resourceAuthMethodUpdate (answering NilResult) settled VNil VNil VNil VNil = (Returned [], settled, [])"
proof -
  have h: "\<forall>k. \<not> HasChange settled k" by (simp add: settled_def host_def)
  have t: "Get settled TypeKey = VString authmethodTypePassword"
    by (simp add: settled_def host_def key_defs index_def)
  from update_without_change [OF h, of "answering NilResult" VNil VNil VNil VNil] t h
  show ?thesis by (simp add: prod_eq_iff)
qed

text \<open>
  C5. Every update that issues a remote call issues exactly one, with version 0 and with
  the option of automatic versioning at the end of a non-empty list of options: the
  request never carries a version number of the caller.
\<close>

theorem update_automatic_versioning:
  assumes "resourceAuthMethodUpdate c d name desc minLoginNameLength minPasswordLength = (out, d', cs)"
    and "cs \<noteq> []"
  shows "\<exists>opts. opts \<noteq> [] \<and> cs = [UpdateCall (Id_rd d) 0 (opts @ [WithAutomaticVersioning True])]"
proof -
  have "cs = snd (snd (resourceAuthMethodUpdate c d name desc minLoginNameLength minPasswordLength))"
    using assms(1) by simp
  with assms(2) show ?thesis
    by (auto simp: resourceAuthMethodUpdate_def finished_calls
             split: sum.splits reply.splits if_splits)
qed

theorem update_automatic_versioning_witness:
  "\<exists>opts. opts \<noteq> [] \<and>
     [UpdateCall ''ampw_1'' 0 [DefaultName, WithName ''new'', WithAutomaticVersioning True]]
       = [UpdateCall (Id_rd renamed) 0 (opts @ [WithAutomaticVersioning True])]"
  using update_automatic_versioning [OF renamed_run] by simp

lemma update_lists_cong:
  assumes "\<forall>k. k \<noteq> ScopeIdKey \<and> k \<noteq> TypeKey \<longrightarrow> h k = HasChange d k"
  shows "commonUpdateOptions (d\<lparr>HasChange := h\<rparr>) = commonUpdateOptions d"
    and "passwordUpdateOptions (d\<lparr>HasChange := h\<rparr>) = passwordUpdateOptions d"
    and "oidcUpdateOptions (d\<lparr>HasChange := h\<rparr>) = oidcUpdateOptions d"
  using assms
  by (simp_all add: commonUpdateOptions_def passwordUpdateOptions_def
      oidcUpdateOptions_def changedWithDefault_def changed_def withOk_def key_defs)

lemma updateOptions_cong:
  assumes "\<forall>k. k \<noteq> ScopeIdKey \<and> k \<noteq> TypeKey \<longrightarrow> h k = HasChange d k"
  shows "updateOptions (d\<lparr>HasChange := h\<rparr>) = updateOptions d"
  unfolding updateOptions_def update_lists_cong [OF assms] by simp

lemma storeChanged_cong:
  assumes "\<forall>k. k \<noteq> ScopeIdKey \<and> k \<noteq> TypeKey \<longrightarrow> h k = HasChange d k"
  shows "finished (storeChanged (d\<lparr>HasChange := h\<rparr>) n ds a b) (d\<lparr>HasChange := h\<rparr>) cs =
    (case finished (storeChanged d n ds a b) d cs of (out, d', cs') \<Rightarrow> (out, d'\<lparr>HasChange := h\<rparr>, cs'))"
  using assms
  by (simp add: storeChanged_def setIfChanged_def checked_def finished_def Set_rd_def key_defs
      split: option.splits)

text \<open>
  C2 (amended). For two hosts that differ only in what they report about a change of
  \<open>scope_id\<close> and of \<open>type\<close>, the update returns the same diagnostics, issues the same
  remote calls and stores the same values.
\<close>

theorem update_makes_no_immutability_check:
  assumes "\<forall>k. k \<noteq> ScopeIdKey \<and> k \<noteq> TypeKey \<longrightarrow> h k = HasChange d k"
  shows "resourceAuthMethodUpdate c (d\<lparr>HasChange := h\<rparr>) name desc minLoginNameLength minPasswordLength =
    (case resourceAuthMethodUpdate c d name desc minLoginNameLength minPasswordLength of
       (out, d', cs) \<Rightarrow> (out, d'\<lparr>HasChange := h\<rparr>, cs))"
  by (simp add: resourceAuthMethodUpdate_def updateOptions_cong [OF assms] storeChanged_cong [OF assms]
      split: sum.splits reply.splits)

theorem update_makes_no_immutability_check_witness:
  "resourceAuthMethodUpdate (answering NilResult) (renamedOnly\<lparr>HasChange := HasChange renamed\<rparr>)
     (VString ''new'') VNil VNil VNil =
   (case resourceAuthMethodUpdate (answering NilResult) renamedOnly (VString ''new'') VNil VNil VNil of
      (out, d', cs) \<Rightarrow> (out, d'\<lparr>HasChange := HasChange renamed\<rparr>, cs))"
proof -
  have "\<forall>k. k \<noteq> ScopeIdKey \<and> k \<noteq> TypeKey \<longrightarrow> HasChange renamed k = HasChange renamedOnly k"
    by (simp add: renamed_def renamedOnly_def host_def key_defs)
  from update_makes_no_immutability_check [OF this] show ?thesis .
qed

text \<open>
  C2 as stated fails: with the scope and the type reported as changed, and the name
  changed too, the update issues its remote call and returns no diagnostic.
\<close>

theorem update_scope_change_counterexample:
  "HasChange renamed ScopeIdKey \<and> HasChange renamed TypeKey
   \<and> fst (resourceAuthMethodUpdate (answering NilResult) renamed (VString ''new'') VNil VNil VNil)
       = Returned []
   \<and> snd (snd (resourceAuthMethodUpdate (answering NilResult) renamed (VString ''new'') VNil VNil VNil))
       = [UpdateCall ''ampw_1'' 0 [DefaultName, WithName ''new'', WithAutomaticVersioning True]]"
  by (simp add: renamed_run) (simp add: renamed_def host_def key_defs)

text \<open>
  C10. In an update of an OIDC auth method whose options are computed, a changed
  \<open>client_secret_hmac\<close> for which the host reports a value yields the option that sets
  the client secret, carrying the HMAC string, and that option is in the one remote call.
\<close>

lemma rekeyed_options:
  "updateOptions rekeyed = Inr (Inr [WithOidcAuthMethodClientSecret ''hmac-from-server''])"
  by (simp add: update_defs key_defs rekeyed_def host_def index_def)

theorem update_hmac_sent_as_secret:
  assumes "Get d TypeKey = VString authmethodTypeOidc"
    and "HasChange d authmethodOidcClientSecretHmacKey"
    and "GetOk d authmethodOidcClientSecretHmacKey = (v, True)"
    and "updateOptions d = Inr (Inr opts)"
  shows "\<exists>hmac. v = VString hmac \<and> WithOidcAuthMethodClientSecret hmac \<in> set opts
     \<and> snd (snd (resourceAuthMethodUpdate c d name desc minLoginNameLength minPasswordLength))
         = [UpdateCall (Id_rd d) 0 (opts @ [WithAutomaticVersioning True])]"
proof -
  from assms(1,4) obtain xs ys where ys: "appended (oidcUpdateOptions d) = Inr ys"
    and opts: "opts = xs @ ys"
    by (auto simp: updateOptions_def key_defs)
  have "changed d authmethodOidcClientSecretHmacKey as_string WithOidcAuthMethodClientSecret
          \<in> set (oidcUpdateOptions d)"
    by (simp add: oidcUpdateOptions_def)
  from appended_Inr [OF ys this] obtain zs where
    zs: "changed d authmethodOidcClientSecretHmacKey as_string WithOidcAuthMethodClientSecret = Inr zs"
    and sub: "set zs \<subseteq> set ys" by blast
  from zs assms(2,3) obtain hmac where v: "v = VString hmac"
    and "zs = [WithOidcAuthMethodClientSecret hmac]"
    by (auto simp: changed_def withOk_def)
  with sub opts have mem: "WithOidcAuthMethodClientSecret hmac \<in> set opts" by auto
  then have "opts \<noteq> []" by auto
  then have "snd (snd (resourceAuthMethodUpdate c d name desc minLoginNameLength minPasswordLength))
         = [UpdateCall (Id_rd d) 0 (opts @ [WithAutomaticVersioning True])]"
    using assms(4) by (simp add: resourceAuthMethodUpdate_def finished_calls split: reply.splits)
  with v mem show ?thesis by blast
qed

theorem update_hmac_sent_as_secret_witness:
  "snd (snd (resourceAuthMethodUpdate (answering NilResult) rekeyed VNil VNil VNil VNil))
     = [UpdateCall ''amoidc_1'' 0
          [WithOidcAuthMethodClientSecret ''hmac-from-server'', WithAutomaticVersioning True]]"
proof -
  have 1: "Get rekeyed TypeKey = VString authmethodTypeOidc"
    by (simp add: rekeyed_def host_def key_defs index_def)
  have 2: "HasChange rekeyed authmethodOidcClientSecretHmacKey"
    by (simp add: rekeyed_def host_def key_defs)
  have 3: "GetOk rekeyed authmethodOidcClientSecretHmacKey = (VString ''hmac-from-server'', True)"
    by (simp add: rekeyed_def host_def key_defs)
  from update_hmac_sent_as_secret [OF 1 2 3 rekeyed_options]
  show ?thesis by (simp add: rekeyed_def host_def)
qed

section \<open>Create\<close>

text \<open>
  C6 (amended). Create fails before any remote call and with the resource data untouched:
  with "no type provided" when the host reports no type; with the error of an invalid
  auth method type when the type is a string other than password and oidc, whether or not
  a scope is given; with "no scope ID provided" when the options of a given type are
  computed and the host reports no scope. Whenever the host reports no scope, create
  issues no remote call and does not succeed.
\<close>

theorem create_fails_fast:
  "(\<not> snd (GetOk d TypeKey) \<longrightarrow>
      resourceAuthMethodCreate c d = (Returned [NoTypeProvided], d, []))
   \<and> (GetOk d TypeKey = (VString t, True) \<and> t \<noteq> authmethodTypePassword \<and> t \<noteq> authmethodTypeOidc \<longrightarrow>
      resourceAuthMethodCreate c d = (Returned [errorInvalidAuthMethodType], d, []))
   \<and> (GetOk d TypeKey = (VString t, True) \<and> createOptions d t = Inr (Inr opts)
        \<and> \<not> snd (GetOk d ScopeIdKey) \<longrightarrow>
      resourceAuthMethodCreate c d = (Returned [NoScopeIdProvided], d, []))
   \<and> (\<not> snd (GetOk d ScopeIdKey) \<longrightarrow>
      snd (resourceAuthMethodCreate c d) = (d, []) \<and> fst (resourceAuthMethodCreate c d) \<noteq> Returned [])"
proof (intro conjI impI)
  assume "\<not> snd (GetOk d TypeKey)"
  then show "resourceAuthMethodCreate c d = (Returned [NoTypeProvided], d, [])"
    by (cases "GetOk d TypeKey") (simp add: resourceAuthMethodCreate_def)
next
  assume "GetOk d TypeKey = (VString t, True) \<and> t \<noteq> authmethodTypePassword \<and> t \<noteq> authmethodTypeOidc"
  then show "resourceAuthMethodCreate c d = (Returned [errorInvalidAuthMethodType], d, [])"
    by (simp add: resourceAuthMethodCreate_def createOptions_def)
next
  assume "GetOk d TypeKey = (VString t, True) \<and> createOptions d t = Inr (Inr opts)
        \<and> \<not> snd (GetOk d ScopeIdKey)"
  then show "resourceAuthMethodCreate c d = (Returned [NoScopeIdProvided], d, [])"
    by (cases "GetOk d ScopeIdKey") (simp add: resourceAuthMethodCreate_def)
next
  assume a: "\<not> snd (GetOk d ScopeIdKey)"
  then show "snd (resourceAuthMethodCreate c d) = (d, [])"
    by (cases "GetOk d ScopeIdKey")
       (auto simp: resourceAuthMethodCreate_def split: prod.splits bool.splits sum.splits)
  from a show "fst (resourceAuthMethodCreate c d) \<noteq> Returned []"
    by (cases "GetOk d ScopeIdKey")
       (auto simp: resourceAuthMethodCreate_def split: prod.splits bool.splits sum.splits)
qed

theorem create_fails_fast_witness:
  "resourceAuthMethodCreate (answering NilResult) unconfigured = (Returned [NoTypeProvided], unconfigured, [])
   \<and> resourceAuthMethodCreate (answering NilResult) ldapNoScope
       = (Returned [errorInvalidAuthMethodType], ldapNoScope, [])
   \<and> resourceAuthMethodCreate (answering NilResult) passwordNoScope
       = (Returned [NoScopeIdProvided], passwordNoScope, [])"
proof -
  have 1: "\<not> snd (GetOk unconfigured TypeKey)"
    by (simp add: unconfigured_def host_def)
  have 2: "GetOk ldapNoScope TypeKey = (VString ''ldap'', True) \<and> ''ldap'' \<noteq> authmethodTypePassword
           \<and> ''ldap'' \<noteq> authmethodTypeOidc"
    by (simp add: ldapNoScope_def host_def key_defs)
  have 3: "GetOk passwordNoScope TypeKey = (VString ''password'', True)
           \<and> createOptions passwordNoScope ''password'' = Inr (Inr [WithName ''pw''])
           \<and> \<not> snd (GetOk passwordNoScope ScopeIdKey)"
    by (simp add: passwordNoScope_def host_def key_defs create_defs)
  from 1 2 3
    create_fails_fast [where d = unconfigured and c = "answering NilResult"]
    create_fails_fast [where d = ldapNoScope and t = "''ldap''" and c = "answering NilResult"]
    create_fails_fast [where d = passwordNoScope and t = "''password''" and opts = "[WithName ''pw'']"
      and c = "answering NilResult"]
  show ?thesis by blast
qed

text \<open>
  C6 as stated fails where its two halves meet: with no scope and a type that is no auth
  method type, create fails with the error of the invalid type, not with that of a
  missing field.
\<close>

theorem create_invalid_type_without_scope_counterexample:
  "snd (GetOk ldapNoScope ScopeIdKey) = False
   \<and> fst (resourceAuthMethodCreate (answering NilResult) ldapNoScope) = Returned [errorInvalidAuthMethodType]"
  by (simp add: ldapNoScope_def host_def key_defs create_defs)

section \<open>Delete\<close>

text \<open>
  C3 (amended). Whenever the remote delete reports an error, a not-found
  outcome included, the callback returns the diagnostic of a failed delete with that
  error, after its one remote call.
\<close>

theorem delete_surfaces_every_error:
  "Delete_remote c (Id_rd d) = Failure err \<Longrightarrow>
   resourceAuthMethodDelete c d = (Returned [ErrorDeleting err], d, [DeleteCall (Id_rd d)])"
  by (simp add: resourceAuthMethodDelete_def)

theorem delete_surfaces_every_error_witness:
  "resourceAuthMethodDelete (answering (Failure (ServerError 404 ''not found''))) settled =
   (Returned [ErrorDeleting (ServerError 404 ''not found'')], settled, [DeleteCall ''ampw_1''])"
proof -
  have "Delete_remote (answering (Failure (ServerError 404 ''not found''))) (Id_rd settled)
        = Failure (ServerError 404 ''not found'')"
    by (simp add: answering_def)
  from delete_surfaces_every_error [OF this] show ?thesis
    by (simp add: settled_def host_def)
qed

text \<open>
  C3 as stated fails: the remote delete of an id that is already absent answers with
  status 404, and the callback returns a diagnostic, not success.
\<close>

theorem delete_not_found_counterexample:
  "fst (resourceAuthMethodDelete (answering (Failure (ServerError StatusNotFound ''not found'')))
          settled)
   \<noteq> Returned []"
  by (simp add: resourceAuthMethodDelete_def answering_def)

section \<open>Read\<close>

text \<open>
  C4, the failing input. A remote read that fails with an error that is no structured
  error of the service (a refused connection) is not surfaced as a diagnostic: the
  callback panics on the nil pointer.
\<close>

theorem read_other_error_panics:
  "fst (resourceAuthMethodRead (answering (Failure (OtherError ''connection refused''))) settled)
   = Panicked NilDereference"
  by (simp add: resourceAuthMethodRead_def answering_def)

end
